theory Spec2Isabelle
  imports Main "HOL-Library.AList"
begin

section \<open>Exceptions\<close>

text \<open>
  The Python exceptions that the modelled code can meet. A function that can raise
  returns a sum, with \<open>Inl\<close> for the exception.
\<close>

datatype exc = DoesNotExist | AttributeError | IntegrityError | DatabaseError

section \<open>The relational state\<close>

text \<open>
  Every Django model of \<open>pm/models\<close> that the access resolver and the completion cascade
  read is a table: a list of rows. A foreign key is the primary key of the row it
  points to; following it is a lookup in the target table, which raises
  \<open>DoesNotExist\<close> when no such row is there. Status and visibility columns are
  \<open>CharField\<close>s and stay strings. Users are known by their primary key, which is
  what \<open>==\<close> on two model instances compares; the user object that the resolver
  receives carries its key and its nullable role.
\<close>

record user =
  u_id :: nat
  u_role :: "nat option"

record workspace =
  w_id :: nat
  w_name :: string
  w_owner :: nat

record workspace_member =
  wm_id :: nat
  wm_workspace :: nat
  wm_user :: nat
  wm_is_admin :: bool

record project =
  p_id :: nat
  p_name :: string
  p_status :: string
  p_workspace :: nat
  p_visibility :: string

record project_member =
  pm_user :: nat
  pm_project :: nat

record workspace_project_access =
  wpa_workspace_member :: nat
  wpa_project :: nat
  wpa_can_view :: bool
  wpa_can_edit :: bool

record role_permission =
  rp_role :: nat
  rp_permission_type :: string

record milestone =
  m_id :: nat
  m_name :: string
  m_status :: string
  m_project :: nat

record sprint =
  s_id :: nat
  s_name :: string
  s_status :: string
  s_milestone :: nat

text \<open>
  A task object has no primary key before its first save; \<open>assignee\<close> is a nullable
  foreign key.
\<close>

record task =
  t_pk :: "nat option"
  t_sprint :: nat
  t_status :: string
  t_assignee :: "nat option"

text \<open>
  A notification row. The verb of the source is a formatted string; its parts are kept
  apart here: the kind of the completed object, its name, and the number and kind of its
  children (\<open>All 3 tasks completed!\<close>).
\<close>

record notification =
  n_recipient :: nat
  n_actor :: "nat option"
  n_obj_type :: string
  n_obj_name :: string
  n_total :: nat
  n_children :: string
  n_notification_type :: string
  n_target_object_id :: nat

text \<open>
  \<open>status_saves\<close> is the trace of the calls \<open>save(update_fields=['status'])\<close>, each with
  the kind and the primary key of the saved row.
\<close>

record db =
  workspaces :: "workspace list"
  workspace_members :: "workspace_member list"
  projects :: "project list"
  project_members :: "project_member list"
  access_grants :: "workspace_project_access list"
  role_permissions :: "role_permission list"
  milestones :: "milestone list"
  sprints :: "sprint list"
  tasks :: "task list"
  notifications :: "notification list"
  status_saves :: "(string \<times> nat) list"

subsection \<open>Following foreign keys\<close>

definition project_workspace :: "db \<Rightarrow> project \<Rightarrow> workspace option" where
  "project_workspace d prj = find (\<lambda>w. w_id w = p_workspace prj) (workspaces d)"

definition milestone_project :: "db \<Rightarrow> milestone \<Rightarrow> project option" where
  "milestone_project d ms = find (\<lambda>p. p_id p = m_project ms) (projects d)"

definition sprint_milestone :: "db \<Rightarrow> sprint \<Rightarrow> milestone option" where
  "sprint_milestone d sp = find (\<lambda>m. m_id m = s_milestone sp) (milestones d)"

definition task_sprint :: "db \<Rightarrow> task \<Rightarrow> sprint option" where
  "task_sprint d tk = find (\<lambda>s. s_id s = t_sprint tk) (sprints d)"

section \<open>The access resolver (\<open>pm/utils/permission_helpers.py\<close>)\<close>

definition is_workspace_member :: "db \<Rightarrow> user \<Rightarrow> workspace \<Rightarrow> bool" where
  "is_workspace_member d usr ws =
     list_ex (\<lambda>m. wm_workspace m = w_id ws \<and> wm_user m = u_id usr) (workspace_members d)"

definition has_role_permission :: "db \<Rightarrow> user \<Rightarrow> string \<Rightarrow> bool" where
  "has_role_permission d usr permission_type =
     (case u_role usr of
        None \<Rightarrow> False
      | Some r \<Rightarrow>
          list_ex (\<lambda>rp. rp_role rp = r \<and> rp_permission_type rp = permission_type)
            (role_permissions d))"

text \<open>
  The three queries that both project checks share: the rows of the through table
  \<open>ProjectMember\<close>, the admin memberships of the project's workspace, and the grants
  joined with the memberships of the user (\<open>workspace_member__user=user\<close>).
\<close>

definition project_has_member :: "db \<Rightarrow> user \<Rightarrow> project \<Rightarrow> bool" where
  "project_has_member d usr prj =
     list_ex (\<lambda>pm. pm_project pm = p_id prj \<and> pm_user pm = u_id usr) (project_members d)"

definition workspace_has_admin :: "db \<Rightarrow> user \<Rightarrow> workspace \<Rightarrow> bool" where
  "workspace_has_admin d usr ws =
     list_ex (\<lambda>m. wm_workspace m = w_id ws \<and> wm_user m = u_id usr \<and> wm_is_admin m)
       (workspace_members d)"

definition grant_of_user :: "db \<Rightarrow> user \<Rightarrow> workspace_project_access \<Rightarrow> bool" where
  "grant_of_user d usr g =
     list_ex (\<lambda>m. wm_id m = wpa_workspace_member g \<and> wm_user m = u_id usr)
       (workspace_members d)"

definition can_user_view_project :: "db \<Rightarrow> user \<Rightarrow> project \<Rightarrow> exc + bool" where
  "can_user_view_project d usr prj =
     (if project_has_member d usr prj then Inr True
      else case project_workspace d prj of
        None \<Rightarrow> Inl DoesNotExist
      | Some ws \<Rightarrow>
          if w_owner ws = u_id usr then Inr True
          else if workspace_has_admin d usr ws then Inr True
          else if list_ex (\<lambda>g. grant_of_user d usr g \<and> wpa_project g = p_id prj \<and> wpa_can_view g)
                    (access_grants d) then Inr True
          else if p_visibility prj = ''public''
            then Inr (list_ex (\<lambda>m. wm_workspace m = w_id ws \<and> wm_user m = u_id usr)
                        (workspace_members d))
          else Inr False)"

definition can_user_edit_project :: "db \<Rightarrow> user \<Rightarrow> project \<Rightarrow> exc + bool" where
  "can_user_edit_project d usr prj =
     (if project_has_member d usr prj then Inr True
      else case project_workspace d prj of
        None \<Rightarrow> Inl DoesNotExist
      | Some ws \<Rightarrow>
          if w_owner ws = u_id usr then Inr True
          else if workspace_has_admin d usr ws then Inr True
          else if list_ex (\<lambda>g. grant_of_user d usr g \<and> wpa_project g = p_id prj \<and> wpa_can_edit g)
                    (access_grants d) then Inr True
          else if has_role_permission d usr ''project.edit''
            then Inr (is_workspace_member d usr ws)
          else Inr False)"

definition get_accessible_projects :: "db \<Rightarrow> user \<Rightarrow> project list" where
  "get_accessible_projects d usr =
     (let member_projects =
            map p_id (filter (\<lambda>p. list_ex (\<lambda>pm. pm_project pm = p_id p \<and> pm_user pm = u_id usr)
                                    (project_members d)) (projects d));
          admin_workspaces =
            map wm_workspace
              (filter (\<lambda>m. wm_user m = u_id usr \<and> wm_is_admin m) (workspace_members d));
          owned_workspaces = map w_id (filter (\<lambda>w. w_owner w = u_id usr) (workspaces d));
          all_admin_workspace_ids = set admin_workspaces \<union> set owned_workspaces;
          granted_project_ids =
            map wpa_project
              (filter (\<lambda>g. grant_of_user d usr g \<and> wpa_can_view g) (access_grants d));
          member_workspace_ids =
            map wm_workspace (filter (\<lambda>m. wm_user m = u_id usr) (workspace_members d))
      in remdups
           (filter (\<lambda>p. p_id p \<in> set member_projects
                       \<or> p_workspace p \<in> all_admin_workspace_ids
                       \<or> p_id p \<in> set granted_project_ids
                       \<or> (p_workspace p \<in> set member_workspace_ids \<and> p_visibility p = ''public''))
              (projects d)))"

datatype editable = AllFields | FieldList "string list"

record edit_result =
  can_edit :: bool
  fields_of :: editable

definition task_project :: "db \<Rightarrow> task \<Rightarrow> exc + project" where
  "task_project d tk =
     (case task_sprint d tk of
        None \<Rightarrow> Inl DoesNotExist
      | Some sp \<Rightarrow>
          (case sprint_milestone d sp of
             None \<Rightarrow> Inl DoesNotExist
           | Some ms \<Rightarrow>
               (case milestone_project d ms of
                  None \<Rightarrow> Inl DoesNotExist
                | Some prj \<Rightarrow> Inr prj)))"

definition can_user_edit_task :: "db \<Rightarrow> user \<Rightarrow> task \<Rightarrow> exc + edit_result" where
  "can_user_edit_task d usr tk =
     (case task_project d tk of
        Inl e \<Rightarrow> Inl e
      | Inr prj \<Rightarrow>
          (case can_user_edit_project d usr prj of
             Inl e \<Rightarrow> Inl e
           | Inr True \<Rightarrow> Inr \<lparr>can_edit = True, fields_of = AllFields\<rparr>
           | Inr False \<Rightarrow>
               if t_assignee tk = Some (u_id usr)
                 then Inr \<lparr>can_edit = True,
                           fields_of = FieldList [''status'', ''description'', ''start_date'', ''due_date'']\<rparr>
               else if has_role_permission d usr ''task.edit''
                 then (case can_user_view_project d usr prj of
                         Inl e \<Rightarrow> Inl e
                       | Inr True \<Rightarrow> Inr \<lparr>can_edit = True, fields_of = AllFields\<rparr>
                       | Inr False \<Rightarrow> Inr \<lparr>can_edit = False, fields_of = FieldList []\<rparr>)
               else Inr \<lparr>can_edit = False, fields_of = FieldList []\<rparr>))"

section \<open>The completion cascade (\<open>pm/services/auto_completion.py\<close>)\<close>

text \<open>
  The cascade passes the state along and returns it together with the exception that
  escaped, if one did. Django runs in autocommit mode, so the rows written before an
  exception stay written. The only exceptions the cascade can meet come from following a
  foreign key (outside a \<open>try\<close>) and from \<open>Notification.objects.create\<close> (inside
  one); whether the database accepts a notification row is the parameter \<open>accepts\<close>.
  A related object (\<open>task.sprint\<close>, \<open>sprint.milestone\<close>, ...) is read from the
  database when the attribute is followed, and the status that a level tests is the
  status of the object so read.
\<close>

type_synonym outcome = "db \<times> exc option"

text \<open>
  The loop \<open>for member in members: Notification.objects.create(...)\<close>; the first row that
  is refused raises, which ends the loop and leaves the rows created so far.
\<close>

fun create_each :: "(notification \<Rightarrow> bool) \<Rightarrow> notification list \<Rightarrow> notification list \<Rightarrow> notification list" where
  "create_each accepts [] tbl = tbl"
| "create_each accepts (n # ns) tbl =
     (if accepts n then create_each accepts ns (tbl @ [n]) else tbl)"

definition project_members_all :: "db \<Rightarrow> project \<Rightarrow> nat list" where
  "project_members_all d prj =
     map pm_user (filter (\<lambda>pm. pm_project pm = p_id prj) (project_members d))"

definition workspace_members_all :: "db \<Rightarrow> workspace \<Rightarrow> nat list" where
  "workspace_members_all d ws =
     map wm_user (filter (\<lambda>m. wm_workspace m = w_id ws) (workspace_members d))"

text \<open>
  The object handed to \<open>_create_completion_notification\<close> with its tag \<open>obj_type\<close>; the
  three call sites pass \<open>'Sprint'\<close>, \<open>'Milestone'\<close> and \<open>'Project'\<close> with an object
  of that class, so the branch for any other tag is never taken. The body of the function
  is one \<open>try\<close>: a milestone or project that cannot be read ends it with nothing
  created.
\<close>

datatype level_obj = SprintObj sprint | MilestoneObj milestone | ProjectObj project

fun obj_type :: "level_obj \<Rightarrow> string" where
  "obj_type (SprintObj _) = ''Sprint''"
| "obj_type (MilestoneObj _) = ''Milestone''"
| "obj_type (ProjectObj _) = ''Project''"

fun obj_name :: "level_obj \<Rightarrow> string" where
  "obj_name (SprintObj sp) = s_name sp"
| "obj_name (MilestoneObj ms) = m_name ms"
| "obj_name (ProjectObj prj) = p_name prj"

fun obj_id :: "level_obj \<Rightarrow> nat" where
  "obj_id (SprintObj sp) = s_id sp"
| "obj_id (MilestoneObj ms) = m_id ms"
| "obj_id (ProjectObj prj) = p_id prj"

fun obj_project :: "db \<Rightarrow> level_obj \<Rightarrow> exc + project" where
  "obj_project d (SprintObj sp) =
     (case sprint_milestone d sp of
        None \<Rightarrow> Inl DoesNotExist
      | Some ms \<Rightarrow>
          (case milestone_project d ms of None \<Rightarrow> Inl DoesNotExist | Some prj \<Rightarrow> Inr prj))"
| "obj_project d (MilestoneObj ms) =
     (case milestone_project d ms of None \<Rightarrow> Inl DoesNotExist | Some prj \<Rightarrow> Inr prj)"
| "obj_project d (ProjectObj prj) = Inr prj"

definition create_completion_notification ::
  "(notification \<Rightarrow> bool) \<Rightarrow> db \<Rightarrow> level_obj \<Rightarrow> nat \<Rightarrow> string \<Rightarrow> db" where
  "create_completion_notification accepts d obj message_total message_children =
     (case obj_project d obj of
        Inl e \<Rightarrow> d
      | Inr prj \<Rightarrow>
          d\<lparr>notifications :=
              create_each accepts
                (map (\<lambda>member.
                        \<lparr>n_recipient = member, n_actor = None, n_obj_type = obj_type obj,
                         n_obj_name = obj_name obj, n_total = message_total,
                         n_children = message_children,
                         n_notification_type = ''general'', n_target_object_id = obj_id obj\<rparr>)
                   (project_members_all d prj))
                (notifications d)\<rparr>)"

definition create_workspace_completion_notification ::
  "(notification \<Rightarrow> bool) \<Rightarrow> db \<Rightarrow> workspace \<Rightarrow> nat \<Rightarrow> db" where
  "create_workspace_completion_notification accepts d ws total_projects =
     d\<lparr>notifications :=
         create_each accepts
           (map (\<lambda>member.
                   \<lparr>n_recipient = member, n_actor = None, n_obj_type = ''Workspace'',
                    n_obj_name = w_name ws, n_total = total_projects, n_children = ''projects'',
                    n_notification_type = ''general'', n_target_object_id = w_id ws\<rparr>)
              (workspace_members_all d ws))
           (notifications d)\<rparr>"

definition check_and_complete_workspace ::
  "(notification \<Rightarrow> bool) \<Rightarrow> db \<Rightarrow> workspace option \<Rightarrow> outcome" where
  "check_and_complete_workspace accepts d wso =
     (case wso of
        None \<Rightarrow> (d, None)
      | Some ws \<Rightarrow>
          (let total_projects = length (filter (\<lambda>p. p_workspace p = w_id ws) (projects d)) in
           if total_projects = 0 then (d, None)
           else
             (let completed_projects =
                    length (filter (\<lambda>p. p_workspace p = w_id ws \<and> p_status p = ''Completed'')
                              (projects d)) in
              if completed_projects = total_projects
                then (create_workspace_completion_notification accepts d ws total_projects, None)
              else (d, None))))"

definition check_and_complete_project ::
  "(notification \<Rightarrow> bool) \<Rightarrow> db \<Rightarrow> project option \<Rightarrow> outcome" where
  "check_and_complete_project accepts d prjo =
     (case prjo of
        None \<Rightarrow> (d, None)
      | Some prj \<Rightarrow>
          (let total_milestones = length (filter (\<lambda>m. m_project m = p_id prj) (milestones d)) in
           if total_milestones = 0 then (d, None)
           else
             (let completed_milestones =
                    length (filter (\<lambda>m. m_project m = p_id prj \<and> m_status m = ''Completed'')
                              (milestones d)) in
              if completed_milestones = total_milestones
                then if p_status prj \<noteq> ''Completed''
                  then
                  (let prj' = prj\<lparr>p_status := ''Completed''\<rparr>;
                       d1 = d\<lparr>projects :=
                                map (\<lambda>r. if p_id r = p_id prj then r\<lparr>p_status := ''Completed''\<rparr> else r)
                                  (projects d),
                              status_saves := status_saves d @ [(''Project'', p_id prj)]\<rparr>;
                       d2 = create_completion_notification accepts d1 (ProjectObj prj')
                              total_milestones ''milestones''
                   in case project_workspace d2 prj' of
                        None \<Rightarrow> (d2, Some DoesNotExist)
                      | Some ws \<Rightarrow> check_and_complete_workspace accepts d2 (Some ws))
                else (d, None)
              else (d, None))))"

definition check_and_complete_milestone ::
  "(notification \<Rightarrow> bool) \<Rightarrow> db \<Rightarrow> milestone option \<Rightarrow> outcome" where
  "check_and_complete_milestone accepts d mso =
     (case mso of
        None \<Rightarrow> (d, None)
      | Some ms \<Rightarrow>
          (let total_sprints = length (filter (\<lambda>s. s_milestone s = m_id ms) (sprints d)) in
           if total_sprints = 0 then (d, None)
           else
             (let completed_sprints =
                    length (filter (\<lambda>s. s_milestone s = m_id ms \<and> s_status s = ''Completed'')
                              (sprints d)) in
              if completed_sprints = total_sprints
                then if m_status ms \<noteq> ''Completed''
                  then
                  (let ms' = ms\<lparr>m_status := ''Completed''\<rparr>;
                       d1 = d\<lparr>milestones :=
                                map (\<lambda>r. if m_id r = m_id ms then r\<lparr>m_status := ''Completed''\<rparr> else r)
                                  (milestones d),
                              status_saves := status_saves d @ [(''Milestone'', m_id ms)]\<rparr>;
                       d2 = create_completion_notification accepts d1 (MilestoneObj ms')
                              total_sprints ''sprints''
                   in case milestone_project d2 ms' of
                        None \<Rightarrow> (d2, Some DoesNotExist)
                      | Some prj \<Rightarrow> check_and_complete_project accepts d2 (Some prj))
                else (d, None)
              else (d, None))))"

definition check_and_complete_sprint ::
  "(notification \<Rightarrow> bool) \<Rightarrow> db \<Rightarrow> sprint option \<Rightarrow> outcome" where
  "check_and_complete_sprint accepts d spo =
     (case spo of
        None \<Rightarrow> (d, None)
      | Some sp \<Rightarrow>
          (let total_tasks = length (filter (\<lambda>t. t_sprint t = s_id sp) (tasks d)) in
           if total_tasks = 0 then (d, None)
           else
             (let done_tasks =
                    length (filter (\<lambda>t. t_sprint t = s_id sp \<and> t_status t = ''Done'') (tasks d)) in
              if done_tasks = total_tasks
                then if s_status sp \<noteq> ''Completed''
                  then
                  (let sp' = sp\<lparr>s_status := ''Completed''\<rparr>;
                       d1 = d\<lparr>sprints :=
                                map (\<lambda>r. if s_id r = s_id sp then r\<lparr>s_status := ''Completed''\<rparr> else r)
                                  (sprints d),
                              status_saves := status_saves d @ [(''Sprint'', s_id sp)]\<rparr>;
                       d2 = create_completion_notification accepts d1 (SprintObj sp')
                              total_tasks ''tasks''
                   in case sprint_milestone d2 sp' of
                        None \<Rightarrow> (d2, Some DoesNotExist)
                      | Some ms \<Rightarrow> check_and_complete_milestone accepts d2 (Some ms))
                else (d, None)
              else (d, None))))"

definition trigger_auto_completion :: "(notification \<Rightarrow> bool) \<Rightarrow> db \<Rightarrow> task \<Rightarrow> outcome" where
  "trigger_auto_completion accepts d tk =
     (if t_status tk \<noteq> ''Done'' then (d, None)
      else case task_sprint d tk of
             None \<Rightarrow> (d, Some DoesNotExist)
           | Some sp \<Rightarrow> check_and_complete_sprint accepts d (Some sp))"

definition auto_complete_on_task_done :: "(notification \<Rightarrow> bool) \<Rightarrow> db \<Rightarrow> task \<Rightarrow> outcome" where
  "auto_complete_on_task_done accepts d tk = trigger_auto_completion accepts d tk"

subsection \<open>\<open>Task.save\<close> (\<open>pm/models/task_models.py\<close>)\<close>





section \<open>The audit recorder (\<open>pm/services/audit_service.py\<close>)\<close>

subsection \<open>Python objects and attribute access\<close>

text \<open>
  The recorder walks its argument by attribute name, so the argument is an object graph:
  a model instance carries its class name, its primary key (\<open>None\<close> before the first
  save), the text that \<open>str\<close> returns (\<open>None\<close> when \<open>__str__\<close> raises) and its other
  attributes by name. \<open>id\<close> and \<open>pk\<close> both read the primary key. Reading an
  attribute gives a value or raises, and the object lists which: \<open>Inr v\<close> for a read
  that gives \<open>v\<close>, \<open>Inl e\<close> for a read that raises \<open>e\<close>. A forward foreign key
  whose id is set and whose row is missing raises the related model's \<open>DoesNotExist\<close>
  when read, which is not an \<open>AttributeError\<close>. A foreign key that is not nullable and
  whose id is \<open>None\<close> raises \<open>RelatedObjectDoesNotExist\<close>, which is one; so does an
  attribute that is not listed, and any attribute of \<open>None\<close>. A date carries the text
  of its \<open>isoformat()\<close>.
\<close>

datatype pyobj =
    PNone
  | PInt int
  | PBool bool
  | PStr string
  | PDate string
  | PInst string "int option" "string option" "(string \<times> (exc + pyobj)) list"

fun py_getattr :: "pyobj \<Rightarrow> string \<Rightarrow> exc + pyobj" where
  "py_getattr (PInst cls pk str attrs) name =
     (if name = ''pk'' \<or> name = ''id''
        then Inr (case pk of None \<Rightarrow> PNone | Some k \<Rightarrow> PInt k)
      else case map_of attrs name of None \<Rightarrow> Inl AttributeError | Some r \<Rightarrow> r)"
| "py_getattr _ name = Inl AttributeError"

fun attr_chain :: "pyobj \<Rightarrow> string list \<Rightarrow> exc + pyobj" where
  "attr_chain obj [] = Inr obj"
| "attr_chain obj (name # names) =
     (case py_getattr obj name of Inl e \<Rightarrow> Inl e | Inr v \<Rightarrow> attr_chain v names)"

fun type_name :: "pyobj \<Rightarrow> string" where
  "type_name PNone = ''NoneType''"
| "type_name (PInt _) = ''int''"
| "type_name (PBool _) = ''bool''"
| "type_name (PStr _) = ''str''"
| "type_name (PDate _) = ''date''"
| "type_name (PInst cls _ _ _) = cls"

subsection \<open>Snapshots\<close>

text \<open>
  A snapshot is a dictionary from field names to serialized values; a foreign key is
  serialized as the dictionary \<open>{'id': pk, 'display': str(value)}\<close>. Dictionaries keep
  insertion order: assigning to a key that is present replaces its value in place, and a
  new key goes to the end, which is what \<open>AList.update\<close> does.
\<close>

datatype fieldval = FNone | FInt int | FBool bool | FStr string | FRef "int option" string

type_synonym snapshot = "(string \<times> fieldval) list"

definition dict_get :: "snapshot \<Rightarrow> string \<Rightarrow> fieldval" where
  "dict_get dict key = (case map_of dict key of None \<Rightarrow> FNone | Some v \<Rightarrow> v)"

text \<open>Python's \<open>==\<close> on serialized values: \<open>True == 1\<close> and \<open>False == 0\<close> hold.\<close>

fun py_eq :: "fieldval \<Rightarrow> fieldval \<Rightarrow> bool" where
  "py_eq (FInt i) (FBool b) = (i = (if b then 1 else 0))"
| "py_eq (FBool b) (FInt i) = (i = (if b then 1 else 0))"
| "py_eq a b = (a = b)"

fun serialize_value :: "pyobj \<Rightarrow> exc + fieldval" where
  "serialize_value (PInst cls pk str attrs) =
     (case str of None \<Rightarrow> Inl AttributeError | Some display \<Rightarrow> Inr (FRef pk display))"
| "serialize_value (PDate isoformat) = Inr (FStr isoformat)"
| "serialize_value PNone = Inr FNone"
| "serialize_value (PInt i) = Inr (FInt i)"
| "serialize_value (PBool b) = Inr (FBool b)"
| "serialize_value (PStr s) = Inr (FStr s)"

definition get_default_fields_for_model :: "string \<Rightarrow> string list" where
  "get_default_fields_for_model model_name =
     (case map_of
        [(''Workspace'', [''id'', ''name'', ''description'', ''owner'']),
         (''Project'', [''id'', ''name'', ''description'', ''status'', ''visibility'',
                        ''start_date'', ''end_date'', ''archived'', ''workspace'']),
         (''Milestone'', [''id'', ''name'', ''description'', ''status'', ''start_date'',
                          ''end_date'', ''project'']),
         (''Sprint'', [''id'', ''name'', ''description'', ''status'', ''start_date'',
                       ''end_date'', ''milestone'']),
         (''Task'', [''id'', ''title'', ''description'', ''status'', ''priority'',
                     ''assignee'', ''reporter'', ''start_date'', ''due_date'', ''sprint'']),
         (''WorkspaceMember'', [''id'', ''user'', ''workspace'', ''is_admin'', ''role'']),
         (''ProjectMember'', [''id'', ''user'', ''project'', ''role''])]
        model_name of
        None \<Rightarrow> [''id'']
      | Some field_list \<Rightarrow> field_list)"

text \<open>
  One turn of the loop of \<open>serialize_model_state\<close>: \<open>getattr(instance, field, None)\<close>
  gives \<open>None\<close> for an attribute that raises \<open>AttributeError\<close>, and \<open>except Exception\<close>
  stores \<open>None\<close> for whatever else is raised.
\<close>

definition serialize_field :: "pyobj \<Rightarrow> string \<Rightarrow> fieldval" where
  "serialize_field inst field =
     (case (case py_getattr inst field of
              Inl AttributeError \<Rightarrow> serialize_value PNone
            | Inl e \<Rightarrow> Inl e
            | Inr v \<Rightarrow> serialize_value v) of
        Inl e \<Rightarrow> FNone
      | Inr fv \<Rightarrow> fv)"

definition serialize_model_state :: "pyobj \<Rightarrow> string list option \<Rightarrow> snapshot option" where
  "serialize_model_state inst field_names =
     (if inst = PNone then None
      else
        (let model_name = type_name inst;
             field_list = (case field_names of
                             None \<Rightarrow> get_default_fields_for_model model_name
                           | Some fs \<Rightarrow> if fs \<noteq> [] then fs
                                       else get_default_fields_for_model model_name)
         in Some (fold (\<lambda>field data. AList.update field (serialize_field inst field) data)
                    field_list [])))"

definition is_dict :: "fieldval \<Rightarrow> bool" where
  "is_dict v = (case v of FRef _ _ \<Rightarrow> True | _ \<Rightarrow> False)"

definition get_id :: "fieldval \<Rightarrow> int option" where
  "get_id v = (case v of FRef pk _ \<Rightarrow> pk | _ \<Rightarrow> None)"

text \<open>
  \<open>all_keys\<close> is a Python set, whose iteration order is not specified: \<open>set_order\<close> is
  the order in which the set of the given keys is iterated.
\<close>

definition compute_changes ::
  "(string list \<Rightarrow> string list) \<Rightarrow> snapshot option \<Rightarrow> snapshot option
     \<Rightarrow> (string \<times> fieldval \<times> fieldval) list" where
  "compute_changes set_order old_state new_state =
     (case old_state of
        None \<Rightarrow> []
      | Some old \<Rightarrow>
          (case new_state of
             None \<Rightarrow> []
           | Some new \<Rightarrow>
               (let all_keys = set_order (remdups (map fst old @ map fst new)) in
                fold (\<lambda>key changes.
                        (let old_val = dict_get old key; new_val = dict_get new key in
                         if is_dict old_val \<and> is_dict new_val
                           then if get_id old_val \<noteq> get_id new_val
                                  then AList.update key (old_val, new_val) changes
                                else changes
                         else if \<not> py_eq old_val new_val
                           then AList.update key (old_val, new_val) changes
                         else changes))
                  all_keys [])))"

subsection \<open>Context enrichment\<close>

text \<open>
  The body of the \<open>try\<close> in \<open>get_entity_context\<close> is, for each class, a sequence of
  assignments \<open>context[key] = instance.a.b.c\<close>. An \<open>AttributeError\<close> ends the sequence
  and keeps the entries assigned so far; any other exception would propagate.
\<close>

definition context_assignments :: "string \<Rightarrow> (string \<times> string list) list" where
  "context_assignments model_name =
     (if model_name = ''Workspace'' then
        [(''workspace_id'', [''id'']),
         (''workspace_name'', [''name''])]
      else if model_name = ''Project'' then
        [(''workspace_id'', [''workspace_id'']),
         (''workspace_name'', [''workspace'', ''name'']),
         (''project_id'', [''id'']),
         (''project_name'', [''name''])]
      else if model_name = ''Milestone'' then
        [(''workspace_id'', [''project'', ''workspace_id'']),
         (''workspace_name'', [''project'', ''workspace'', ''name'']),
         (''project_id'', [''project_id'']),
         (''project_name'', [''project'', ''name'']),
         (''milestone_id'', [''id'']),
         (''milestone_name'', [''name''])]
      else if model_name = ''Sprint'' then
        [(''workspace_id'', [''milestone'', ''project'', ''workspace_id'']),
         (''workspace_name'', [''milestone'', ''project'', ''workspace'', ''name'']),
         (''project_id'', [''milestone'', ''project_id'']),
         (''project_name'', [''milestone'', ''project'', ''name'']),
         (''milestone_id'', [''milestone_id'']),
         (''milestone_name'', [''milestone'', ''name'']),
         (''sprint_id'', [''id'']),
         (''sprint_name'', [''name''])]
      else if model_name = ''Task'' then
        [(''workspace_id'', [''sprint'', ''milestone'', ''project'', ''workspace_id'']),
         (''workspace_name'', [''sprint'', ''milestone'', ''project'', ''workspace'', ''name'']),
         (''project_id'', [''sprint'', ''milestone'', ''project_id'']),
         (''project_name'', [''sprint'', ''milestone'', ''project'', ''name'']),
         (''milestone_id'', [''sprint'', ''milestone_id'']),
         (''milestone_name'', [''sprint'', ''milestone'', ''name'']),
         (''sprint_id'', [''sprint_id'']),
         (''sprint_name'', [''sprint'', ''name'']),
         (''task_id'', [''id'']),
         (''task_title'', [''title''])]
      else if model_name = ''WorkspaceMember'' then
        [(''workspace_id'', [''workspace_id'']),
         (''workspace_name'', [''workspace'', ''name'']),
         (''member_user_id'', [''user_id'']),
         (''member_username'', [''user'', ''username''])]
      else if model_name = ''ProjectMember'' then
        [(''workspace_id'', [''project'', ''workspace_id'']),
         (''workspace_name'', [''project'', ''workspace'', ''name'']),
         (''project_id'', [''project_id'']),
         (''project_name'', [''project'', ''name'']),
         (''member_user_id'', [''user_id'']),
         (''member_username'', [''user'', ''username''])]
      else [])"

fun run_assignments ::
  "pyobj \<Rightarrow> (string \<times> string list) list \<Rightarrow> (string \<times> pyobj) list \<Rightarrow> exc + (string \<times> pyobj) list" where
  "run_assignments inst [] ctx = Inr ctx"
| "run_assignments inst ((key, path) # rest) ctx =
     (case attr_chain inst path of
        Inl AttributeError \<Rightarrow> Inr ctx
      | Inl e \<Rightarrow> Inl e
      | Inr v \<Rightarrow> run_assignments inst rest (AList.update key v ctx))"

definition get_entity_context :: "pyobj \<Rightarrow> exc + (string \<times> pyobj) list" where
  "get_entity_context inst = run_assignments inst (context_assignments (type_name inst)) []"

subsection \<open>The log entries\<close>

text \<open>
  \<open>extra_info\<close> holds the context values as they were read, what the caller passed, and
  the list of changed field names. \<open>object_id\<close> is a \<open>PositiveIntegerField\<close> without
  \<open>null=True\<close>: \<open>ActivityLog.objects.create\<close> raises \<open>IntegrityError\<close> for a row
  whose \<open>object_id\<close> is \<open>None\<close> or negative. Whether the database takes a row that
  passes these two checks is the parameter \<open>accepts\<close>; a row it refuses (a value out
  of the column's range, a \<open>user\<close> without a row, a lost connection) raises a
  \<open>DatabaseError\<close>.
\<close>

datatype xval = XObj pyobj | XKeys "string list"

record activity_log =
  al_user :: "nat option"
  al_action :: string
  al_content_type :: string
  al_object_id :: "int option"
  al_reason :: "string option"
  al_old_value :: "snapshot option"
  al_new_value :: "snapshot option"
  al_extra_info :: "(string \<times> xval) list"

definition activity_log_create :: "(activity_log \<Rightarrow> bool) \<Rightarrow> activity_log \<Rightarrow> exc + activity_log" where
  "activity_log_create accepts row =
     (case al_object_id row of
        None \<Rightarrow> Inl IntegrityError
      | Some k \<Rightarrow>
          if k < 0 then Inl IntegrityError
          else if accepts row then Inr row
          else Inl DatabaseError)"

definition dict_merge :: "(string \<times> xval) list \<Rightarrow> (string \<times> xval) list \<Rightarrow> (string \<times> xval) list" where
  "dict_merge a b = fold (\<lambda>(k, v) acc. AList.update k v acc) b a"

definition context_dict :: "(string \<times> pyobj) list \<Rightarrow> (string \<times> xval) list" where
  "context_dict ctx = map (\<lambda>(k, v). (k, XObj v)) ctx"

definition or_empty :: "(string \<times> xval) list option \<Rightarrow> (string \<times> xval) list" where
  "or_empty extra_info = (case extra_info of None \<Rightarrow> [] | Some e \<Rightarrow> e)"

text \<open>\<open>instance.id\<close>, read when the arguments of \<open>create\<close> are evaluated.\<close>

definition instance_id :: "pyobj \<Rightarrow> exc + int option" where
  "instance_id inst =
     (case py_getattr inst ''id'' of
        Inl e \<Rightarrow> Inl e
      | Inr (PInt k) \<Rightarrow> Inr (Some k)
      | Inr _ \<Rightarrow> Inr None)"


definition log_update ::
  "(string list \<Rightarrow> string list) \<Rightarrow> (activity_log \<Rightarrow> bool) \<Rightarrow> nat option \<Rightarrow> pyobj \<Rightarrow> snapshot option \<Rightarrow> string option
     \<Rightarrow> (string \<times> xval) list option \<Rightarrow> string list option \<Rightarrow> exc + activity_log" where
  "log_update set_order accepts usr inst old_state reason extra_info field_names =
     (let new_state = serialize_model_state inst field_names in
      case get_entity_context inst of
        Inl e \<Rightarrow> Inl e
      | Inr ctx \<Rightarrow>
          (let changes = (if old_state \<noteq> None \<and> old_state \<noteq> Some []
                            then compute_changes set_order old_state new_state else []);
               final_extra_info =
                 AList.update ''changed_fields'' (XKeys (map fst changes))
                   (dict_merge (context_dict ctx) (or_empty extra_info))
           in case instance_id inst of
                Inl e \<Rightarrow> Inl e
              | Inr oid \<Rightarrow>
                  activity_log_create accepts
                    \<lparr>al_user = usr, al_action = ''UPDATED'', al_content_type = type_name inst,
                     al_object_id = oid, al_reason = reason, al_old_value = old_state,
                     al_new_value = new_state, al_extra_info = final_extra_info\<rparr>))"



section \<open>The properties, in the words of the specification\<close>

text \<open>
  The five view rules of the specification, in its order, for a project whose workspace
  is \<open>ws\<close>.
\<close>

definition view_rules :: "db \<Rightarrow> user \<Rightarrow> project \<Rightarrow> workspace \<Rightarrow> bool list" where
  "view_rules d usr prj ws =
     [\<exists>pm \<in> set (project_members d). pm_project pm = p_id prj \<and> pm_user pm = u_id usr,
      w_owner ws = u_id usr,
      \<exists>m \<in> set (workspace_members d).
         wm_workspace m = p_workspace prj \<and> wm_user m = u_id usr \<and> wm_is_admin m,
      \<exists>g \<in> set (access_grants d). wpa_project g = p_id prj \<and> wpa_can_view g \<and>
         (\<exists>m \<in> set (workspace_members d). wm_id m = wpa_workspace_member g \<and> wm_user m = u_id usr),
      p_visibility prj = ''public'' \<and>
         (\<exists>m \<in> set (workspace_members d). wm_workspace m = p_workspace prj \<and> wm_user m = u_id usr)]"

text \<open>
  A sprint is ready to be completed when it has at least one task, all its tasks are
  Done and it is not Completed yet.
\<close>

definition sprint_tasks :: "db \<Rightarrow> sprint \<Rightarrow> task list" where
  "sprint_tasks d sp = filter (\<lambda>t. t_sprint t = s_id sp) (tasks d)"

definition sprint_ready :: "db \<Rightarrow> sprint \<Rightarrow> bool" where
  "sprint_ready d sp \<longleftrightarrow>
     sprint_tasks d sp \<noteq> [] \<and> (\<forall>t \<in> set (sprint_tasks d sp). t_status t = ''Done'')
     \<and> s_status sp \<noteq> ''Completed''"

text \<open>
  Two values differ when they are unequal, two foreign keys when their ids are. The
  differing keys of two snapshots are the keys of either whose values differ, a key that
  a snapshot lacks reading as \<open>None\<close>.
\<close>

fun value_differs :: "fieldval \<Rightarrow> fieldval \<Rightarrow> bool" where
  "value_differs (FRef i _) (FRef j _) = (i \<noteq> j)"
| "value_differs a b = (\<not> py_eq a b)"

definition differing_keys :: "snapshot \<Rightarrow> snapshot \<Rightarrow> string set" where
  "differing_keys old new =
     {key \<in> set (map fst old) \<union> set (map fst new).
        value_differs (dict_get old key) (dict_get new key)}"

definition changed_fields :: "activity_log \<Rightarrow> xval option" where
  "changed_fields entry = map_of (al_extra_info entry) ''changed_fields''"


section \<open>A workspace with two projects\<close>

text \<open>
  User 10 owns the workspace; 11 is an admin member, 12 and 13 are plain members and 14
  is a member of the private project. Member 12 holds a grant on the private project
  that allows editing but not viewing, member 13 one that allows both. The private
  project has one milestone with one sprint of two tasks.
\<close>

definition ex_workspace :: workspace where
  "ex_workspace = \<lparr>w_id = 1, w_name = ''Acme'', w_owner = 10\<rparr>"

definition ex_public :: project where
  "ex_public = \<lparr>p_id = 1, p_name = ''Handbook'', p_status = ''Not Started'', p_workspace = 1,
                 p_visibility = ''public''\<rparr>"

definition ex_private :: project where
  "ex_private = \<lparr>p_id = 2, p_name = ''Launch'', p_status = ''Not Started'', p_workspace = 1,
                  p_visibility = ''private''\<rparr>"

definition ex_milestone :: milestone where
  "ex_milestone = \<lparr>m_id = 1, m_name = ''Beta'', m_status = ''Not Started'', m_project = 2\<rparr>"

definition ex_sprint :: sprint where
  "ex_sprint = \<lparr>s_id = 1, s_name = ''Sprint 1'', s_status = ''Not Started'', s_milestone = 1\<rparr>"

definition ex_task1 :: task where
  "ex_task1 = \<lparr>t_pk = Some 1, t_sprint = 1, t_status = ''Done'', t_assignee = Some 12\<rparr>"

definition ex_task2 :: task where
  "ex_task2 = \<lparr>t_pk = Some 2, t_sprint = 1, t_status = ''To-do'', t_assignee = Some 16\<rparr>"

definition ex_db :: db where
  "ex_db =
     \<lparr>workspaces = [ex_workspace],
      workspace_members =
        [\<lparr>wm_id = 1, wm_workspace = 1, wm_user = 11, wm_is_admin = True\<rparr>,
         \<lparr>wm_id = 2, wm_workspace = 1, wm_user = 12, wm_is_admin = False\<rparr>,
         \<lparr>wm_id = 3, wm_workspace = 1, wm_user = 13, wm_is_admin = False\<rparr>],
      projects = [ex_public, ex_private],
      project_members = [\<lparr>pm_user = 14, pm_project = 2\<rparr>],
      access_grants =
        [\<lparr>wpa_workspace_member = 2, wpa_project = 2, wpa_can_view = False, wpa_can_edit = True\<rparr>,
         \<lparr>wpa_workspace_member = 3, wpa_project = 2, wpa_can_view = True, wpa_can_edit = True\<rparr>],
      role_permissions =
        [\<lparr>rp_role = 1, rp_permission_type = ''project.edit''\<rparr>,
         \<lparr>rp_role = 1, rp_permission_type = ''task.edit''\<rparr>,
         \<lparr>rp_role = 2, rp_permission_type = ''project.edit''\<rparr>],
      milestones = [ex_milestone],
      sprints = [ex_sprint],
      tasks = [ex_task1, ex_task2],
      notifications = [],
      status_saves = []\<rparr>"

definition ex_user :: "nat \<Rightarrow> nat option \<Rightarrow> user" where
  "ex_user uid r = \<lparr>u_id = uid, u_role = r\<rparr>"

text \<open>The same state with both tasks Done, and with the first task alone.\<close>

definition ex_db_done :: db where
  "ex_db_done = ex_db\<lparr>tasks := [ex_task1, ex_task2\<lparr>t_status := ''Done''\<rparr>]\<rparr>"



text \<open>
  A stored task with its whole containment chain: sprint, milestone, project and
  workspace.
\<close>

definition ex_workspace_obj :: pyobj where
  "ex_workspace_obj = PInst ''Workspace'' (Some 1) (Some ''Acme'') [(''name'', Inr (PStr ''Acme''))]"

definition ex_project_obj :: pyobj where
  "ex_project_obj =
     PInst ''Project'' (Some 2) (Some ''Launch'')
       [(''name'', Inr (PStr ''Launch'')), (''workspace_id'', Inr (PInt 1)),
        (''workspace'', Inr ex_workspace_obj)]"

definition ex_milestone_obj :: pyobj where
  "ex_milestone_obj =
     PInst ''Milestone'' (Some 5) (Some ''Launch - Beta'')
       [(''name'', Inr (PStr ''Beta'')), (''project_id'', Inr (PInt 2)),
        (''project'', Inr ex_project_obj)]"

definition ex_sprint_obj :: pyobj where
  "ex_sprint_obj =
     PInst ''Sprint'' (Some 4) (Some ''Beta - Sprint 1'')
       [(''name'', Inr (PStr ''Sprint 1'')), (''milestone_id'', Inr (PInt 5)),
        (''milestone'', Inr ex_milestone_obj)]"

definition ex_task_obj :: "int option \<Rightarrow> pyobj" where
  "ex_task_obj pk =
     PInst ''Task'' pk (Some ''Write report'')
       [(''title'', Inr (PStr ''Write report'')), (''status'', Inr (PStr ''Done'')),
        (''priority'', Inr (PStr ''High'')), (''due_date'', Inr (PDate ''2024-05-01'')),
        (''assignee'', Inr (PInst ''User'' (Some 12) (Some ''ann'') [(''username'', Inr (PStr ''ann''))])),
        (''sprint_id'', Inr (PInt 4)), (''sprint'', Inr ex_sprint_obj)]"

text \<open>The context of that task, as \<open>extra_info\<close> holds it.\<close>

definition ex_task_extra_info :: "(string \<times> xval) list" where
  "ex_task_extra_info =
     [(''workspace_id'', XObj (PInt 1)), (''workspace_name'', XObj (PStr ''Acme'')),
      (''project_id'', XObj (PInt 2)), (''project_name'', XObj (PStr ''Launch'')),
      (''milestone_id'', XObj (PInt 5)), (''milestone_name'', XObj (PStr ''Beta'')),
      (''sprint_id'', XObj (PInt 4)), (''sprint_name'', XObj (PStr ''Sprint 1'')),
      (''task_id'', XObj (PInt 7)), (''task_title'', XObj (PStr ''Write report''))]"

text \<open>
  A stored task whose sprint points to a milestone row that is gone: the sprint's id of
  the milestone is set, reading the milestone raises \<open>DoesNotExist\<close>, and so does the
  sprint's \<open>__str__\<close>, which prints the milestone's name.
\<close>

definition ex_orphan_sprint_obj :: pyobj where
  "ex_orphan_sprint_obj =
     PInst ''Sprint'' (Some 4) None
       [(''name'', Inr (PStr ''Sprint 1'')), (''milestone_id'', Inr (PInt 9)),
        (''milestone'', Inl DoesNotExist)]"

definition ex_orphan_task_obj :: pyobj where
  "ex_orphan_task_obj =
     PInst ''Task'' (Some 7) (Some ''Write report'')
       [(''title'', Inr (PStr ''Write report'')), (''status'', Inr (PStr ''Done'')),
        (''sprint_id'', Inr (PInt 4)), (''sprint'', Inr ex_orphan_sprint_obj)]"

text \<open>
  A task object with a key whose sprint is not set (its id of the sprint is \<open>None\<close>, so
  reading the sprint raises the \<open>AttributeError\<close> \<open>RelatedObjectDoesNotExist\<close>), whose
  reporter cannot be read and whose assignee's \<open>__str__\<close> raises.
\<close>

definition ex_detached_task_obj :: pyobj where
  "ex_detached_task_obj =
     PInst ''Task'' (Some 7) (Some ''Write report'')
       [(''title'', Inr (PStr ''Write report'')), (''status'', Inr (PStr ''Done'')),
        (''assignee'', Inr (PInst ''User'' (Some 12) None [])),
        (''reporter'', Inl DoesNotExist),
        (''sprint_id'', Inr PNone)]"

section \<open>Unfolding sets for the examples\<close>

lemmas ex_defs = ex_db_def ex_workspace_def ex_public_def ex_private_def ex_milestone_def
  ex_sprint_def ex_task1_def ex_task2_def ex_user_def

lemmas access_defs = can_user_view_project_def can_user_edit_project_def project_has_member_def
  workspace_has_admin_def grant_of_user_def project_workspace_def has_role_permission_def
  is_workspace_member_def

lemmas cascade_defs = trigger_auto_completion_def check_and_complete_sprint_def
  check_and_complete_milestone_def check_and_complete_project_def
  check_and_complete_workspace_def create_completion_notification_def
  create_workspace_completion_notification_def project_members_all_def
  workspace_members_all_def task_sprint_def sprint_milestone_def milestone_project_def
  project_workspace_def


lemmas ex_obj_defs = ex_task_obj_def ex_sprint_obj_def ex_milestone_obj_def ex_project_obj_def
  ex_workspace_obj_def ex_orphan_task_obj_def ex_orphan_sprint_obj_def ex_detached_task_obj_def

section \<open>Role permissions\<close>

text \<open>
  C8. A user whose role is null has no role permission, whatever the permission string
  and whatever the rows of \<open>RolePermission\<close>, also when every role holds the permission.
  A user with a role has the permission exactly when a row with that role and that
  permission type exists.
\<close>

theorem has_role_permission_default_deny:
  "(u_role usr = None \<longrightarrow> \<not> has_role_permission d usr p) \<and>
   (\<forall>r. u_role usr = Some r \<longrightarrow>
      has_role_permission d usr p =
        (\<exists>rp \<in> set (role_permissions d). rp_role rp = r \<and> rp_permission_type rp = p))"
  by (simp add: has_role_permission_def list_ex_iff)

text \<open>
  In the example every role holds \<open>project.edit\<close>: the user without a role is still
  refused, and the user with role 2 has \<open>project.edit\<close> but not \<open>task.edit\<close>.
\<close>

theorem has_role_permission_default_deny_witness:
  "\<not> has_role_permission ex_db (ex_user 12 None) ''project.edit''
   \<and> has_role_permission ex_db (ex_user 15 (Some 2)) ''project.edit''
   \<and> \<not> has_role_permission ex_db (ex_user 15 (Some 2)) ''task.edit''"
  using has_role_permission_default_deny[of "ex_user 12 None" ex_db "''project.edit''"]
    has_role_permission_default_deny[of "ex_user 15 (Some 2)" ex_db "''project.edit''"]
    has_role_permission_default_deny[of "ex_user 15 (Some 2)" ex_db "''task.edit''"]
  by (simp add: ex_defs)

section \<open>Viewing a project\<close>

lemma project_workspace_id:
  "project_workspace d prj = Some ws \<Longrightarrow> w_id ws = p_workspace prj"
  by (auto simp: project_workspace_def find_Some_iff)

lemma view_value:
  assumes "project_workspace d prj = Some ws"
  shows "can_user_view_project d usr prj = Inr (list_ex (\<lambda>c. c) (view_rules d usr prj ws))"
  using assms project_workspace_id[OF assms]
  by (auto simp: can_user_view_project_def view_rules_def project_has_member_def
        workspace_has_admin_def grant_of_user_def list_ex_iff)

text \<open>
  C2. For a project whose workspace row exists, \<open>can_user_view_project\<close> returns true
  exactly when one of the five rules holds (project member, workspace owner, workspace
  admin, a grant with \<open>can_view\<close> for a membership of the user, a public project in a
  workspace of which the user is a member) and false when none does. The order in which
  the rules are tried does not matter: trying them in any order \<open>rs\<close>, the first
  true one winning, gives the value the function returns.
\<close>

theorem can_user_view_project_iff:
  assumes "project_workspace d prj = Some ws" and "set rs = set (view_rules d usr prj ws)"
  shows "can_user_view_project d usr prj = Inr (list_ex (\<lambda>c. c) rs)"
  using assms(2) unfolding view_value[OF assms(1)] by (simp add: list_ex_iff)

text \<open>
  Member 12 sees the public project by the fifth rule and does not see the private one;
  the rules are tried here in the reverse order.
\<close>

theorem can_user_view_project_iff_witness:
  "project_workspace ex_db ex_public = Some ex_workspace
   \<and> can_user_view_project ex_db (ex_user 12 None) ex_public = Inr True
   \<and> can_user_view_project ex_db (ex_user 12 None) ex_private = Inr False"
proof -
  have w1: "project_workspace ex_db ex_public = Some ex_workspace"
    and w2: "project_workspace ex_db ex_private = Some ex_workspace"
    by (simp_all add: ex_defs project_workspace_def)
  have "can_user_view_project ex_db (ex_user 12 None) ex_public =
          Inr (list_ex (\<lambda>c. c) (rev (view_rules ex_db (ex_user 12 None) ex_public ex_workspace)))"
    by (rule can_user_view_project_iff[OF w1]) simp
  moreover have "can_user_view_project ex_db (ex_user 12 None) ex_private =
          Inr (list_ex (\<lambda>c. c) (rev (view_rules ex_db (ex_user 12 None) ex_private ex_workspace)))"
    by (rule can_user_view_project_iff[OF w2]) simp
  ultimately show ?thesis using w1 by (simp add: view_rules_def ex_defs)
qed

section \<open>The accessible projects\<close>

lemma member_filter_map:
  "k \<in> set (map f (filter P xs)) \<longleftrightarrow> (\<exists>x \<in> set xs. P x \<and> f x = k)"
  by auto

text \<open>
  C3. In a state where every project's workspace row exists and workspace ids are
  unique (the foreign key and the primary key of the schema), the projects that
  \<open>get_accessible_projects\<close> returns are exactly the projects of the table for which
  \<open>can_user_view_project\<close> returns true, each once.
\<close>

theorem get_accessible_projects_eq:
  assumes fk: "\<forall>p \<in> set (projects d). project_workspace d p \<noteq> None"
    and pk: "distinct (map w_id (workspaces d))"
  shows "set (get_accessible_projects d usr) =
           {p \<in> set (projects d). can_user_view_project d usr p = Inr True}
         \<and> distinct (get_accessible_projects d usr)"
proof -
  have "p \<in> set (get_accessible_projects d usr) \<longleftrightarrow> can_user_view_project d usr p = Inr True"
    if "p \<in> set (projects d)" for p
  proof -
    from that fk obtain ws where ws: "project_workspace d p = Some ws" by auto
    have wid: "w_id ws = p_workspace p" by (rule project_workspace_id[OF ws])
    have win: "ws \<in> set (workspaces d)"
      using ws by (auto simp: project_workspace_def find_Some_iff in_set_conv_nth)
    have inj: "inj_on w_id (set (workspaces d))" using pk by (simp add: distinct_map)
    have owner: "(\<exists>w \<in> set (workspaces d). w_owner w = u_id usr \<and> w_id w = p_workspace p)
                   \<longleftrightarrow> w_owner ws = u_id usr"
      using win wid inj by (metis inj_onD)
    have a1: "p_id p \<in> set (map p_id (filter (\<lambda>p. list_ex (\<lambda>pm. pm_project pm = p_id p \<and> pm_user pm = u_id usr)
                                    (project_members d)) (projects d)))
               \<longleftrightarrow> (\<exists>pm \<in> set (project_members d). pm_project pm = p_id p \<and> pm_user pm = u_id usr)"
      using that unfolding member_filter_map list_ex_iff by metis
    have a2: "p_workspace p \<in> set (map wm_workspace
              (filter (\<lambda>m. wm_user m = u_id usr \<and> wm_is_admin m) (workspace_members d)))
               \<longleftrightarrow> (\<exists>m \<in> set (workspace_members d).
                      wm_workspace m = p_workspace p \<and> wm_user m = u_id usr \<and> wm_is_admin m)"
      unfolding member_filter_map by metis
    have a3: "p_workspace p \<in> set (map w_id (filter (\<lambda>w. w_owner w = u_id usr) (workspaces d)))
               \<longleftrightarrow> w_owner ws = u_id usr"
      unfolding member_filter_map using owner by simp
    have a4: "p_id p \<in> set (map wpa_project
              (filter (\<lambda>g. grant_of_user d usr g \<and> wpa_can_view g) (access_grants d)))
               \<longleftrightarrow> (\<exists>g \<in> set (access_grants d). wpa_project g = p_id p \<and> wpa_can_view g \<and>
         (\<exists>m \<in> set (workspace_members d). wm_id m = wpa_workspace_member g \<and> wm_user m = u_id usr))"
      unfolding member_filter_map grant_of_user_def list_ex_iff by metis
    have a5: "p_workspace p \<in> set (map wm_workspace (filter (\<lambda>m. wm_user m = u_id usr) (workspace_members d)))
               \<longleftrightarrow> (\<exists>m \<in> set (workspace_members d). wm_workspace m = p_workspace p \<and> wm_user m = u_id usr)"
      unfolding member_filter_map by metis
    have "p \<in> set (get_accessible_projects d usr) \<longleftrightarrow> list_ex (\<lambda>c. c) (view_rules d usr p ws)"
      unfolding get_accessible_projects_def Let_def view_rules_def set_remdups set_filter mem_Collect_eq
        Un_iff a1 a2 a3 a4 a5 using that by auto
    then show ?thesis by (simp add: view_value[OF ws])
  qed
  moreover have "set (get_accessible_projects d usr) \<subseteq> set (projects d)"
    by (auto simp: get_accessible_projects_def Let_def)
  moreover have "distinct (get_accessible_projects d usr)"
    by (simp add: get_accessible_projects_def Let_def)
  ultimately show ?thesis by blast
qed

text \<open>For member 12 both sides are the public project alone.\<close>

theorem get_accessible_projects_eq_witness:
  "list_all (\<lambda>p. project_workspace ex_db p \<noteq> None) (projects ex_db)
   \<and> distinct (map w_id (workspaces ex_db))
   \<and> get_accessible_projects ex_db (ex_user 12 None) = [ex_public]
   \<and> {p \<in> set (projects ex_db). can_user_view_project ex_db (ex_user 12 None) p = Inr True}
       = {ex_public}"
proof -
  have fk: "\<forall>p \<in> set (projects ex_db). project_workspace ex_db p \<noteq> None"
    by (simp add: ex_defs project_workspace_def)
  have pk: "distinct (map w_id (workspaces ex_db))" by (simp add: ex_defs)
  have l: "get_accessible_projects ex_db (ex_user 12 None) = [ex_public]"
    by (simp add: get_accessible_projects_def grant_of_user_def ex_defs)
  show ?thesis
    using get_accessible_projects_eq[OF fk pk, of "ex_user 12 None"] fk pk l
    by (simp add: list_all_iff)
qed

section \<open>Editing a project\<close>




section \<open>Editing a task\<close>

text \<open>
  C7. For a task whose sprint, milestone and project rows exist, and whose project's
  workspace row exists, \<open>can_user_edit_task\<close> returns: all fields when the user may
  edit the project; else the four self-service fields when the user is the assignee;
  else all fields when the user's role holds \<open>task.edit\<close> and the user may view the
  project; else no permission and no field.
\<close>

theorem can_user_edit_task_rules:
  assumes "task_project d tk = Inr prj" and "project_workspace d prj = Some ws"
  shows "can_user_edit_task d usr tk =
           Inr (if can_user_edit_project d usr prj = Inr True
                  then \<lparr>can_edit = True, fields_of = AllFields\<rparr>
                else if t_assignee tk = Some (u_id usr)
                  then \<lparr>can_edit = True,
                        fields_of = FieldList [''status'', ''description'', ''start_date'', ''due_date'']\<rparr>
                else if has_role_permission d usr ''task.edit''
                        \<and> can_user_view_project d usr prj = Inr True
                  then \<lparr>can_edit = True, fields_of = AllFields\<rparr>
                else \<lparr>can_edit = False, fields_of = FieldList []\<rparr>)"
proof -
  have "\<exists>e. can_user_edit_project d usr prj = Inr e"
    using assms(2) by (auto simp: can_user_edit_project_def)
  then obtain e where e: "can_user_edit_project d usr prj = Inr e" ..
  have "\<exists>v. can_user_view_project d usr prj = Inr v"
    using assms(2) by (auto simp: can_user_view_project_def)
  then obtain v where v: "can_user_view_project d usr prj = Inr v" ..
  show ?thesis
    by (cases e; cases v) (simp_all add: can_user_edit_task_def assms(1) e v)
qed

text \<open>
  On the second task: its assignee 16 gets the four fields, member 12 (who may edit the
  project) gets all, and user 17, whose role holds \<open>task.edit\<close> but who cannot view
  the project, gets nothing.
\<close>

theorem can_user_edit_task_rules_witness:
  "task_project ex_db ex_task2 = Inr ex_private
   \<and> project_workspace ex_db ex_private = Some ex_workspace
   \<and> can_user_edit_task ex_db (ex_user 16 None) ex_task2 =
       Inr \<lparr>can_edit = True,
            fields_of = FieldList [''status'', ''description'', ''start_date'', ''due_date'']\<rparr>
   \<and> can_user_edit_task ex_db (ex_user 12 None) ex_task2 =
       Inr \<lparr>can_edit = True, fields_of = AllFields\<rparr>
   \<and> can_user_edit_task ex_db (ex_user 17 (Some 1)) ex_task2 =
       Inr \<lparr>can_edit = False, fields_of = FieldList []\<rparr>"
proof -
  have p: "task_project ex_db ex_task2 = Inr ex_private"
    by (simp add: task_project_def task_sprint_def sprint_milestone_def milestone_project_def ex_defs)
  have w: "project_workspace ex_db ex_private = Some ex_workspace"
    by (simp add: ex_defs project_workspace_def)
  have a: "can_user_edit_project ex_db (ex_user 16 None) ex_private = Inr False"
    "can_user_edit_project ex_db (ex_user 12 None) ex_private = Inr True"
    "can_user_edit_project ex_db (ex_user 17 (Some 1)) ex_private = Inr False"
    "can_user_view_project ex_db (ex_user 17 (Some 1)) ex_private = Inr False"
    by (simp_all add: ex_defs access_defs)
  show ?thesis
    using can_user_edit_task_rules[OF p w, of "ex_user 16 None"]
      can_user_edit_task_rules[OF p w, of "ex_user 12 None"]
      can_user_edit_task_rules[OF p w, of "ex_user 17 (Some 1)"] p w a
    by (simp add: ex_task2_def ex_user_def)
qed

section \<open>The completion cascade\<close>

subsection \<open>What each level leaves alone\<close>

lemma ccn_keeps:
  "tasks (create_completion_notification a d obj n c) = tasks d"
  "sprints (create_completion_notification a d obj n c) = sprints d"
  "milestones (create_completion_notification a d obj n c) = milestones d"
  "projects (create_completion_notification a d obj n c) = projects d"
  "workspaces (create_completion_notification a d obj n c) = workspaces d"
  "status_saves (create_completion_notification a d obj n c) = status_saves d"
  by (simp_all add: create_completion_notification_def split: sum.splits)

lemma cwn_keeps:
  "tasks (fst (check_and_complete_workspace a d wso)) = tasks d"
  "sprints (fst (check_and_complete_workspace a d wso)) = sprints d"
  "milestones (fst (check_and_complete_workspace a d wso)) = milestones d"
  "status_saves (fst (check_and_complete_workspace a d wso)) = status_saves d"
  by (simp_all add: check_and_complete_workspace_def create_workspace_completion_notification_def
        Let_def split: option.splits)

lemma cpj_keeps:
  "tasks (fst (check_and_complete_project a d po)) = tasks d"
  "sprints (fst (check_and_complete_project a d po)) = sprints d"
  "milestones (fst (check_and_complete_project a d po)) = milestones d"
  by (simp_all add: check_and_complete_project_def Let_def ccn_keeps cwn_keeps split: option.splits)

lemma cms_keeps:
  "tasks (fst (check_and_complete_milestone a d mo)) = tasks d"
  "sprints (fst (check_and_complete_milestone a d mo)) = sprints d"
  by (simp_all add: check_and_complete_milestone_def Let_def ccn_keeps cpj_keeps split: option.splits)

lemma cpj_saves: "\<exists>rest. status_saves (fst (check_and_complete_project a d po)) = status_saves d @ rest"
  by (simp add: check_and_complete_project_def Let_def ccn_keeps cwn_keeps split: option.splits)

lemma cms_saves: "\<exists>rest. status_saves (fst (check_and_complete_milestone a d mo)) = status_saves d @ rest"
proof (cases mo)
  case None
  then show ?thesis by (simp add: check_and_complete_milestone_def)
next
  case (Some ms)
  show ?thesis
    using cpj_saves[of a "create_completion_notification a
        (d\<lparr>milestones := map (\<lambda>r. if m_id r = m_id ms then r\<lparr>m_status := ''Completed''\<rparr> else r) (milestones d),
           status_saves := status_saves d @ [(''Milestone'', m_id ms)]\<rparr>)
        (MilestoneObj (ms\<lparr>m_status := ''Completed''\<rparr>))
        (length (filter (\<lambda>s. s_milestone s = m_id ms) (sprints d))) ''sprints''"]
    by (auto simp: Some check_and_complete_milestone_def Let_def ccn_keeps split: option.splits)
qed

subsection \<open>The sprint level\<close>

lemma all_done_conv:
  "length (filter (\<lambda>t. P t \<and> Q t) xs) = length (filter P xs) \<longleftrightarrow> (\<forall>t \<in> set (filter P xs). Q t)"
proof -
  have "filter (\<lambda>t. P t \<and> Q t) xs = filter Q (filter P xs)" by (simp add: conj_commute)
  then show ?thesis
    by (metis filter_id_conv filter_True length_filter_less less_irrefl_nat)
qed

lemma find_map_upd:
  assumes "find (\<lambda>r. key r = k) xs = Some x" and "\<And>r. key (f r) = key r"
  shows "find (\<lambda>r. key r = k) (map (\<lambda>r. if key r = k then f r else r) xs) = Some (f x)"
  using assms by (induction xs) (auto split: if_splits)

lemma sprint_not_ready:
  "\<not> sprint_ready d sp \<Longrightarrow> check_and_complete_sprint a d (Some sp) = (d, None)"
  by (auto simp: check_and_complete_sprint_def Let_def sprint_ready_def sprint_tasks_def all_done_conv)

lemma sprint_ready_run:
  assumes "sprint_ready d sp"
  shows "tasks (fst (check_and_complete_sprint a d (Some sp))) = tasks d"
    and "sprints (fst (check_and_complete_sprint a d (Some sp))) =
           map (\<lambda>r. if s_id r = s_id sp then r\<lparr>s_status := ''Completed''\<rparr> else r) (sprints d)"
    and "\<exists>rest. status_saves (fst (check_and_complete_sprint a d (Some sp))) =
           status_saves d @ (''Sprint'', s_id sp) # rest"
proof -
  have c: "length (filter (\<lambda>t. t_sprint t = s_id sp) (tasks d)) \<noteq> 0"
      "length (filter (\<lambda>t. t_sprint t = s_id sp \<and> t_status t = ''Done'') (tasks d))
         = length (filter (\<lambda>t. t_sprint t = s_id sp) (tasks d))"
      "s_status sp \<noteq> ''Completed''"
    using assms by (auto simp: sprint_ready_def sprint_tasks_def all_done_conv)
  show "tasks (fst (check_and_complete_sprint a d (Some sp))) = tasks d"
    using c by (simp add: check_and_complete_sprint_def Let_def ccn_keeps cms_keeps split: option.splits)
  show "sprints (fst (check_and_complete_sprint a d (Some sp))) =
           map (\<lambda>r. if s_id r = s_id sp then r\<lparr>s_status := ''Completed''\<rparr> else r) (sprints d)"
    using c by (simp add: check_and_complete_sprint_def Let_def ccn_keeps cms_keeps split: option.splits)
  show "\<exists>rest. status_saves (fst (check_and_complete_sprint a d (Some sp))) =
           status_saves d @ (''Sprint'', s_id sp) # rest"
    using c cms_saves[of a "create_completion_notification a
        (d\<lparr>sprints := map (\<lambda>r. if s_id r = s_id sp then r\<lparr>s_status := ''Completed''\<rparr> else r) (sprints d),
           status_saves := status_saves d @ [(''Sprint'', s_id sp)]\<rparr>)
        (SprintObj (sp\<lparr>s_status := ''Completed''\<rparr>))
        (length (filter (\<lambda>t. t_sprint t = s_id sp) (tasks d))) ''tasks''"]
    by (auto simp: check_and_complete_sprint_def Let_def ccn_keeps split: option.splits)
qed

text \<open>
  C4. When the trigger runs for a task whose status is Done and whose sprint row is
  \<open>sp\<close>: if the sprint has at least one task, all its tasks are Done and it is not
  Completed, then every row of that sprint gets the status Completed, no other sprint row
  changes, and the save of the sprint is the next entry of the trace; in every other
  case the whole state is returned as it was (no status written, no notification
  created, nothing done at the milestone level) and nothing is raised.
\<close>

theorem sprint_completed_iff:
  assumes "t_status tk = ''Done''" and "task_sprint d tk = Some sp"
  shows "if sprint_ready d sp
         then sprints (fst (trigger_auto_completion a d tk)) =
                map (\<lambda>r. if s_id r = s_id sp then r\<lparr>s_status := ''Completed''\<rparr> else r) (sprints d)
              \<and> (\<exists>rest. status_saves (fst (trigger_auto_completion a d tk)) =
                           status_saves d @ (''Sprint'', s_id sp) # rest)
         else trigger_auto_completion a d tk = (d, None)"
  using assms sprint_ready_run(2,3)[of d sp a] sprint_not_ready[of d sp a]
  by (simp add: trigger_auto_completion_def)

text \<open>
  With both tasks Done the sprint of the example is completed; with the second task
  still open the state does not change.
\<close>

theorem sprint_completed_iff_witness:
  "t_status ex_task1 = ''Done'' \<and> task_sprint ex_db_done ex_task1 = Some ex_sprint
   \<and> sprint_ready ex_db_done ex_sprint
   \<and> sprints (fst (trigger_auto_completion (\<lambda>_. True) ex_db_done ex_task1)) =
       [ex_sprint\<lparr>s_status := ''Completed''\<rparr>]
   \<and> \<not> sprint_ready ex_db ex_sprint
   \<and> trigger_auto_completion (\<lambda>_. True) ex_db ex_task1 = (ex_db, None)"
proof -
  have t: "t_status ex_task1 = ''Done''" by (simp add: ex_defs)
  have s1: "task_sprint ex_db_done ex_task1 = Some ex_sprint"
    and s2: "task_sprint ex_db ex_task1 = Some ex_sprint"
    by (simp_all add: task_sprint_def ex_db_done_def ex_defs)
  have r1: "sprint_ready ex_db_done ex_sprint" and r2: "\<not> sprint_ready ex_db ex_sprint"
    by (simp_all add: sprint_ready_def sprint_tasks_def ex_db_done_def ex_defs)
  show ?thesis
    using sprint_completed_iff[OF t s1, of "\<lambda>_. True"] sprint_completed_iff[OF t s2, of "\<lambda>_. True"]
      t s1 r1 r2
    by (simp add: ex_db_done_def ex_db_def ex_sprint_def)
qed

subsection \<open>Running the trigger again\<close>

lemma trigger_again:
  "fst (trigger_auto_completion a2 (fst (trigger_auto_completion a d tk)) tk) =
   fst (trigger_auto_completion a d tk)"
proof (cases "t_status tk = ''Done''")
  case False
  then show ?thesis by (simp add: trigger_auto_completion_def)
next
  case dn: True
  show ?thesis
  proof (cases "task_sprint d tk")
    case None
    then show ?thesis using dn by (simp add: trigger_auto_completion_def)
  next
    case (Some sp)
    show ?thesis
    proof (cases "sprint_ready d sp")
      case False
      then show ?thesis using dn Some sprint_not_ready[of d sp]
        by (simp add: trigger_auto_completion_def)
    next
      case True
      let ?d' = "fst (check_and_complete_sprint a d (Some sp))"
      let ?sp' = "sp\<lparr>s_status := ''Completed''\<rparr>"
      have run: "trigger_auto_completion a d tk = check_and_complete_sprint a d (Some sp)"
        using dn Some by (simp add: trigger_auto_completion_def)
      have "find (\<lambda>r. s_id r = t_sprint tk) (sprints d) = Some sp"
        using Some by (simp add: task_sprint_def)
      then have sid: "s_id sp = t_sprint tk" by (auto simp: find_Some_iff)
      have "task_sprint ?d' tk = Some ?sp'"
        using Some find_map_upd[of s_id "t_sprint tk" "sprints d" sp "\<lambda>r. r\<lparr>s_status := ''Completed''\<rparr>"]
        by (simp add: task_sprint_def sprint_ready_run(2)[OF True] sid)
      moreover have "\<not> sprint_ready ?d' ?sp'" by (simp add: sprint_ready_def)
      ultimately have "trigger_auto_completion a2 ?d' tk = (?d', None)"
        using dn sprint_not_ready[of ?d' ?sp' a2] by (simp add: trigger_auto_completion_def)
      then show ?thesis by (simp add: run)
    qed
  qed
qed

text \<open>
  C5. The trigger does nothing for a task that is not Done. For a task that is Done, a
  second run of the trigger (or of \<open>auto_complete_on_task_done\<close>) on the state that the
  first run left returns that state unchanged: no row gets a new status, the trace of
  status saves gets no entry and no notification is created, whether or not the
  database accepts notifications in either run.
\<close>

theorem trigger_idempotent:
  "(t_status tk \<noteq> ''Done'' \<longrightarrow> trigger_auto_completion a d tk = (d, None)) \<and>
   (t_status tk = ''Done'' \<longrightarrow>
      fst (trigger_auto_completion a2 (fst (trigger_auto_completion a d tk)) tk) =
      fst (trigger_auto_completion a d tk) \<and>
      fst (auto_complete_on_task_done a2 (fst (auto_complete_on_task_done a d tk)) tk) =
      fst (auto_complete_on_task_done a d tk))"
  by (simp add: trigger_again auto_complete_on_task_done_def) (simp add: trigger_auto_completion_def)

text \<open>
  The first run on the example completes the sprint, its milestone and the private
  project, and notifies the project's member at each level.
\<close>

lemma ex_run:
  "trigger_auto_completion (\<lambda>_. True) ex_db_done ex_task1 =
     (ex_db_done\<lparr>
        sprints := [ex_sprint\<lparr>s_status := ''Completed''\<rparr>],
        milestones := [ex_milestone\<lparr>m_status := ''Completed''\<rparr>],
        projects := [ex_public, ex_private\<lparr>p_status := ''Completed''\<rparr>],
        notifications :=
          [\<lparr>n_recipient = 14, n_actor = None, n_obj_type = ''Sprint'', n_obj_name = ''Sprint 1'',
            n_total = 2, n_children = ''tasks'', n_notification_type = ''general'',
            n_target_object_id = 1\<rparr>,
           \<lparr>n_recipient = 14, n_actor = None, n_obj_type = ''Milestone'', n_obj_name = ''Beta'',
            n_total = 1, n_children = ''sprints'', n_notification_type = ''general'',
            n_target_object_id = 1\<rparr>,
           \<lparr>n_recipient = 14, n_actor = None, n_obj_type = ''Project'', n_obj_name = ''Launch'',
            n_total = 1, n_children = ''milestones'', n_notification_type = ''general'',
            n_target_object_id = 2\<rparr>],
        status_saves := [(''Sprint'', 1), (''Milestone'', 1), (''Project'', 2)]\<rparr>, None)"
  by (simp add: ex_db_done_def ex_defs cascade_defs Let_def)

text \<open>The second run on the example adds nothing to the three saves of the first.\<close>

theorem trigger_idempotent_witness:
  "t_status ex_task1 = ''Done''
   \<and> status_saves (fst (trigger_auto_completion (\<lambda>_. True) ex_db_done ex_task1)) =
       [(''Sprint'', 1), (''Milestone'', 1), (''Project'', 2)]
   \<and> fst (trigger_auto_completion (\<lambda>_. True)
            (fst (trigger_auto_completion (\<lambda>_. True) ex_db_done ex_task1)) ex_task1) =
       fst (trigger_auto_completion (\<lambda>_. True) ex_db_done ex_task1)
   \<and> t_status ex_task2 \<noteq> ''Done''
   \<and> trigger_auto_completion (\<lambda>_. True) ex_db ex_task2 = (ex_db, None)"
  using trigger_idempotent[of ex_task1 "\<lambda>_. True" ex_db_done "\<lambda>_. True"]
    trigger_idempotent[of ex_task2 "\<lambda>_. True" ex_db "\<lambda>_. True"]
  by (simp add: ex_run) (simp add: ex_defs)

subsection \<open>Saving a task\<close>



section \<open>The audit recorder\<close>

subsection \<open>What context enrichment and serialization catch\<close>




lemma instance_id_not_none: "instance_id inst = Inr x \<Longrightarrow> inst \<noteq> PNone"
  by (auto simp: instance_id_def)

lemma serialize_returns:
  "inst \<noteq> PNone \<Longrightarrow> \<exists>new. serialize_model_state inst field_names = Some new"
  by (simp add: serialize_model_state_def Let_def)




subsection \<open>The changed fields\<close>

lemma value_differs_iff:
  "value_differs a b \<longleftrightarrow>
     (if is_dict a \<and> is_dict b then get_id a \<noteq> get_id b else \<not> py_eq a b)"
  by (cases a; cases b) (simp_all add: is_dict_def get_id_def)

lemma value_differs_refl: "\<not> value_differs a a"
  by (cases a) simp_all

lemma fold_changes_keys:
  fixes old new :: snapshot
  defines "step \<equiv> (\<lambda>key changes.
                        (let old_val = dict_get old key; new_val = dict_get new key in
                         if is_dict old_val \<and> is_dict new_val
                           then if get_id old_val \<noteq> get_id new_val
                                  then AList.update key (old_val, new_val) changes
                                else changes
                         else if \<not> py_eq old_val new_val
                           then AList.update key (old_val, new_val) changes
                         else changes))"
  shows "set (map fst (fold step ks acc)) =
           set (map fst acc) \<union> {key \<in> set ks. value_differs (dict_get old key) (dict_get new key)}
         \<and> (distinct (map fst acc) \<longrightarrow> distinct (map fst (fold step ks acc)))"
proof (induction ks arbitrary: acc)
  case Nil
  then show ?case by simp
next
  case (Cons k ks)
  have s: "step k acc = (if value_differs (dict_get old k) (dict_get new k)
                          then AList.update k (dict_get old k, dict_get new k) acc else acc)"
    by (simp add: step_def Let_def value_differs_iff)
  show ?case
  proof (cases "value_differs (dict_get old k) (dict_get new k)")
    case True
    let ?acc' = "AList.update k (dict_get old k, dict_get new k) acc"
    have k1: "set (map fst ?acc') = insert k (set (map fst acc))"
      by (simp add: dom_update)
    have k2: "distinct (map fst acc) \<longrightarrow> distinct (map fst ?acc')"
      by (simp add: distinct_update)
    show ?thesis
      using Cons.IH[of ?acc'] True k2 unfolding fold_simps s k1 by auto
  next
    case False
    then show ?thesis
      using Cons.IH[of acc] unfolding fold_simps s by auto
  qed
qed

lemma compute_changes_keys:
  assumes "set (set_order (remdups (map fst old @ map fst new))) = set (map fst old) \<union> set (map fst new)"
  shows "set (map fst (compute_changes set_order (Some old) (Some new))) = differing_keys old new"
    and "distinct (map fst (compute_changes set_order (Some old) (Some new)))"
  using fold_changes_keys[of old new "set_order (remdups (map fst old @ map fst new))" "[]"] assms
  by (simp_all add: compute_changes_def differing_keys_def Let_def)

text \<open>
  C6, as it holds. Let the iteration of a set of keys visit each of its keys, and let
  context enrichment return and the write succeed (the instance has a key that is not
  negative and the database takes the row). Then \<open>log_update\<close> returns an entry whose
  \<open>new_value\<close> is the fresh snapshot. When \<open>old_state\<close> is a snapshot that is not
  empty, \<open>changed_fields\<close> lists, each once, exactly the keys of either snapshot whose
  values differ (two foreign keys differing when their ids do), and it is empty when the
  two snapshots are equal. When \<open>old_state\<close> is \<open>None\<close> or empty, \<open>changed_fields\<close>
  is empty.
\<close>

theorem log_update_changed_fields:
  assumes "\<forall>ks. set (set_order ks) = set ks"
    and "get_entity_context inst = Inr ctx"
    and "instance_id inst = Inr (Some k)" and "0 \<le> k"
    and "\<forall>row. accepts row"
  shows "\<exists>new entry.
           serialize_model_state inst field_names = Some new
         \<and> log_update set_order accepts usr inst old_state reason extra_info field_names = Inr entry
         \<and> al_new_value entry = Some new
         \<and> (old_state = None \<or> old_state = Some [] \<longrightarrow> changed_fields entry = Some (XKeys []))
         \<and> (\<forall>old. old_state = Some old \<and> old \<noteq> [] \<longrightarrow>
               (\<exists>keys. changed_fields entry = Some (XKeys keys) \<and> distinct keys
                       \<and> set keys = differing_keys old new
                       \<and> (old = new \<longrightarrow> keys = [])))"
proof -
  have "inst \<noteq> PNone" using assms(3) by (rule instance_id_not_none)
  then obtain new where new: "serialize_model_state inst field_names = Some new"
    using serialize_returns by blast
  let ?changes = "if old_state \<noteq> None \<and> old_state \<noteq> Some []
                    then compute_changes set_order old_state (Some new) else []"
  let ?entry = "\<lparr>al_user = usr, al_action = ''UPDATED'', al_content_type = type_name inst,
                  al_object_id = Some k, al_reason = reason, al_old_value = old_state,
                  al_new_value = Some new,
                  al_extra_info = AList.update ''changed_fields'' (XKeys (map fst ?changes))
                     (dict_merge (context_dict ctx) (or_empty extra_info))\<rparr>"
  have run: "log_update set_order accepts usr inst old_state reason extra_info field_names = Inr ?entry"
    using assms(2-5) by (simp add: log_update_def new activity_log_create_def Let_def)
  have cf: "changed_fields ?entry = Some (XKeys (map fst ?changes))"
    by (simp add: changed_fields_def update_conv')
  have some: "\<exists>keys. changed_fields ?entry = Some (XKeys keys) \<and> distinct keys
                       \<and> set keys = differing_keys old new \<and> (old = new \<longrightarrow> keys = [])"
    if "old_state = Some old" "old \<noteq> []" for old
  proof -
    have ch: "?changes = compute_changes set_order (Some old) (Some new)" using that by simp
    have ord: "set (set_order (remdups (map fst old @ map fst new))) = set (map fst old) \<union> set (map fst new)"
      using assms(1) by simp
    have "differing_keys new new = {}" by (simp add: differing_keys_def value_differs_refl)
    note keys = compute_changes_keys[of set_order old new, OF ord]
    from \<open>differing_keys new new = {}\<close> have "old = new \<longrightarrow> map fst ?changes = []"
      using keys(1) unfolding ch by auto
    moreover have "changed_fields ?entry =
        Some (XKeys (map fst (compute_changes set_order (Some old) (Some new))))"
      using cf ch by simp
    ultimately show ?thesis
      using keys unfolding ch by blast
  qed
  have none: "old_state = None \<or> old_state = Some [] \<longrightarrow> changed_fields ?entry = Some (XKeys [])"
    unfolding cf by auto
  show ?thesis
    using new run some none by (intro exI[of _ new] exI[of _ ?entry]) simp
qed

lemma ex_task_context:
  "get_entity_context (ex_task_obj (Some 7)) =
     Inr [(''workspace_id'', PInt 1), (''workspace_name'', PStr ''Acme''),
          (''project_id'', PInt 2), (''project_name'', PStr ''Launch''),
          (''milestone_id'', PInt 5), (''milestone_name'', PStr ''Beta''),
          (''sprint_id'', PInt 4), (''sprint_name'', PStr ''Sprint 1''),
          (''task_id'', PInt 7), (''task_title'', PStr ''Write report'')]"
  by (simp add: ex_obj_defs get_entity_context_def context_assignments_def)

lemma ex_task_reads:
  "instance_id (ex_task_obj (Some 7)) = Inr (Some 7)"
  "type_name (ex_task_obj (Some 7)) = ''Task''"
  "serialize_model_state (ex_task_obj (Some 7)) (Some [''status'']) = Some [(''status'', FStr ''Done'')]"
  by (simp_all add: ex_task_obj_def instance_id_def serialize_model_state_def serialize_field_def
        Let_def)

lemmas ex_update_defs = log_update_def ex_task_context ex_task_reads ex_task_extra_info_def
  activity_log_create_def dict_merge_def context_dict_def or_empty_def compute_changes_def
  dict_get_def is_dict_def get_id_def Let_def

text \<open>
  The two examples of the specification on the stored task with its whole chain, the
  snapshot restricted to the status: from To-do to Done the changed fields are the
  status alone, and with an old state equal to the new one there is none.
\<close>

theorem log_update_changed_fields_witness:
  "instance_id (ex_task_obj (Some 7)) = Inr (Some 7)
   \<and> log_update (\<lambda>ks. ks) (\<lambda>_. True) (Some 3) (ex_task_obj (Some 7))
        (Some [(''status'', FStr ''To-do'')]) None None (Some [''status'']) =
      Inr \<lparr>al_user = Some 3, al_action = ''UPDATED'', al_content_type = ''Task'',
           al_object_id = Some 7, al_reason = None,
           al_old_value = Some [(''status'', FStr ''To-do'')],
           al_new_value = Some [(''status'', FStr ''Done'')],
           al_extra_info = ex_task_extra_info @ [(''changed_fields'', XKeys [''status''])]\<rparr>
   \<and> log_update (\<lambda>ks. ks) (\<lambda>_. True) (Some 3) (ex_task_obj (Some 7))
        (Some [(''status'', FStr ''Done'')]) None None (Some [''status'']) =
      Inr \<lparr>al_user = Some 3, al_action = ''UPDATED'', al_content_type = ''Task'',
           al_object_id = Some 7, al_reason = None,
           al_old_value = Some [(''status'', FStr ''Done'')],
           al_new_value = Some [(''status'', FStr ''Done'')],
           al_extra_info = ex_task_extra_info @ [(''changed_fields'', XKeys [])]\<rparr>"
proof -
  have h: "\<forall>ks :: string list. set ((\<lambda>ks. ks) ks) = set ks" by simp
  have i: "instance_id (ex_task_obj (Some 7)) = Inr (Some 7)"
    by (rule ex_task_reads(1))
  have k: "(0::int) \<le> 7" by simp
  have a: "\<forall>row :: activity_log. (\<lambda>_. True) row" by simp
  show ?thesis
    using log_update_changed_fields[OF h ex_task_context i k a,
        where field_names = "Some [''status'']" and usr = "Some 3"
        and old_state = "Some [(''status'', FStr ''To-do'')]"] i
    by (simp add: ex_update_defs)
qed

text \<open>
  C6 as stated fails for an empty old state, on the same stored task: the status
  differs between the empty old snapshot and the new one, and \<open>changed_fields\<close> is
  empty.
\<close>

theorem changed_fields_empty_old_state:
  "log_update (\<lambda>ks. ks) (\<lambda>_. True) (Some 3) (ex_task_obj (Some 7)) (Some []) None None
       (Some [''status'']) =
     Inr \<lparr>al_user = Some 3, al_action = ''UPDATED'', al_content_type = ''Task'',
          al_object_id = Some 7, al_reason = None, al_old_value = Some [],
          al_new_value = Some [(''status'', FStr ''Done'')],
          al_extra_info = ex_task_extra_info @ [(''changed_fields'', XKeys [])]\<rparr>
   \<and> differing_keys [] [(''status'', FStr ''Done'')] = {''status''}"
proof -
  have "differing_keys [] [(''status'', FStr ''Done'')] = {''status''}"
    by (auto simp: differing_keys_def dict_get_def)
  then show ?thesis
    by (simp add: ex_update_defs)
qed

end
